theory Spec2Isabelle
  imports Complex_Main "HOL-Library.Word"
begin

section \<open>pyglet.model: the data the module works on\<close>

text \<open>
  The module \<^verbatim>\<open>pyglet/model/__init__.py\<close> holds the loader \<^verbatim>\<open>load\<close>, the class
  \<^verbatim>\<open>Model\<close>, the value class \<^verbatim>\<open>Material\<close> and the rendering groups
  \<^verbatim>\<open>BaseMaterialGroup\<close>, \<^verbatim>\<open>TexturedMaterialGroup\<close> and \<^verbatim>\<open>MaterialGroup\<close>.
  Python objects are mutable and have an identity; the embedding keeps the identity of an
  object as a number (what \<^verbatim>\<open>id\<close> and \<^verbatim>\<open>is\<close> observe) and passes the mutable state
  explicitly.
\<close>

type_synonym bytes = "8 word list"

type_synonym vec3 = "real \<times> real \<times> real"

text \<open>A reference to a \<^verbatim>\<open>pyglet.graphics.Batch\<close> object, and a vertex-list handle.\<close>

type_synonym batch_ref = nat

type_synonym vertex_list = nat

text \<open>\<^verbatim>\<open>class Material\<close>: seven slots, the last one optional.\<close>

record Material =
  name :: string
  diffuse :: "real list"
  ambient :: "real list"
  specular :: "real list"
  emission :: "real list"
  shininess :: real
  texture_name :: "string option"

text \<open>
  A texture as the groups use it: \<^verbatim>\<open>texture.id\<close> and \<^verbatim>\<open>texture.target\<close>.
\<close>

record texture =
  tex_id :: nat
  target :: nat

text \<open>
  The two shader programs of the module, one per concrete class
  (\<^verbatim>\<open>_default_program\<close>, a class attribute built once).
\<close>

datatype shader_program = Textured_default_program | Untextured_default_program

text \<open>
  The attributes \<^verbatim>\<open>BaseMaterialGroup.__init__\<close> sets, with the \<^verbatim>\<open>parent\<close> that
  \<^verbatim>\<open>graphics.Group.__init__\<close> sets (\<open>None\<close> or the identity of the parent group), and
  the identity \<open>oid\<close> of the group object itself.
\<close>

record base_group =
  oid :: nat
  parent :: "nat option"
  material :: Material
  rotation :: vec3
  translation :: vec3
  program :: shader_program

datatype group =
    TexturedMaterialGroup base_group texture
  | MaterialGroup base_group

fun base :: "group \<Rightarrow> base_group" where
  "base (TexturedMaterialGroup b t) = b"
| "base (MaterialGroup b) = b"

text \<open>
  \<^verbatim>\<open>class Model\<close>: the attributes \<^verbatim>\<open>Model.__init__\<close> sets. The private attributes
  \<^verbatim>\<open>_batch\<close>, \<^verbatim>\<open>_rotation\<close> and \<^verbatim>\<open>_translation\<close> are the fields
  \<open>Model_batch\<close>, \<open>Model_rotation\<close> and \<open>Model_translation\<close>. The constructor stores the
  batch it is given, which may be \<open>None\<close>.
\<close>

record Model =
  vertex_lists :: "vertex_list list"
  groups :: "group list"
  Model_batch :: "batch_ref option"
  Model_rotation :: vec3
  Model_translation :: vec3

definition Model_init :: "vertex_list list \<Rightarrow> group list \<Rightarrow> batch_ref option \<Rightarrow> Model" where
  "Model_init vls gs b =
     \<lparr>vertex_lists = vls, groups = gs, Model_batch = b,
      Model_rotation = (0, 0, 0), Model_translation = (0, 0, 0)\<rparr>"

section \<open>The loader\<close>

text \<open>
  A decode failure is a \<^verbatim>\<open>ModelDecodeException\<close>: its message and its
  \<^verbatim>\<open>exception_priority\<close> (a Python integer).
\<close>

record ModelDecodeException =
  message :: string
  exception_priority :: int

text \<open>
  What one call \<^verbatim>\<open>decoder.decode(file, filename, batch)\<close> does: it returns a Model,
  raises a \<^verbatim>\<open>ModelDecodeException\<close>, or raises any other exception (named by a string).
\<close>

datatype decoded =
    Returns Model
  | Raises_decode ModelDecodeException
  | Raises_other string

text \<open>
  A decoder is an external plug-in. It has an identity and a \<^verbatim>\<open>decode\<close> method; the
  method reads the stream (its bytes, from the position it finds the stream at) and leaves
  the stream at some position, which is the second component of its result.
\<close>

record decoder =
  decoder_id :: nat
  decode :: "bytes \<Rightarrow> nat \<Rightarrow> string \<Rightarrow> batch_ref option \<Rightarrow> decoded \<times> nat"

text \<open>The stream bound to the variable \<^verbatim>\<open>file\<close>: its bytes and its position.\<close>

record stream =
  content :: bytes
  position :: nat

text \<open>
  The calls \<^verbatim>\<open>load\<close> makes on its collaborators, in the order it makes them:
  \<open>Decode d p\<close> is a call of the \<^verbatim>\<open>decode\<close> method of the decoder with identity \<open>d\<close>,
  made when the stream stood at position \<open>p\<close>; \<open>Seek n\<close> is \<^verbatim>\<open>file.seek(n)\<close>; \<open>Close\<close>
  is \<^verbatim>\<open>file.close()\<close>.
\<close>

datatype event = Decode nat nat | Seek nat | Close

record world =
  stream_of :: stream
  trace :: "event list"

text \<open>
  The exceptions that leave \<^verbatim>\<open>load\<close>. In Python the first two are both instances of
  \<^verbatim>\<open>ModelDecodeException\<close>; they are told apart here by where they are raised:
  \<open>No_decoders_available\<close> is the exception \<^verbatim>\<open>load\<close> itself builds in line 138, with the
  message \<^verbatim>\<open>No decoders are available for this model format.\<close>;
  \<open>Decode_failure e\<close> is an exception \<open>e\<close> a decoder raised.
\<close>

datatype load_exception =
    No_decoders_available
  | Decode_failure ModelDecodeException
  | Other_exception string
  | IO_error

text \<open>The argument \<^verbatim>\<open>file\<close> of \<^verbatim>\<open>load\<close>.\<close>

datatype file_argument =
    No_file
  | Seekable_file stream
  | Unseekable_file bytes

text \<open>
  Lines 116 to 120. Without a \<^verbatim>\<open>file\<close> the file named \<^verbatim>\<open>filename\<close> is opened for
  reading (the file system \<open>fs\<close> maps a path to its bytes; opening a missing path raises).
  A file object without \<^verbatim>\<open>seek\<close> is read to its end into a \<^verbatim>\<open>BytesIO\<close>, which starts
  at position 0; \<open>Unseekable_file bs\<close> is such an object whose \<^verbatim>\<open>read()\<close> gives \<open>bs\<close>.
\<close>

definition acquire :: "(string \<rightharpoonup> bytes) \<Rightarrow> string \<Rightarrow> file_argument \<Rightarrow> load_exception + stream" where
  "acquire fs filename file =
     (case file of
        No_file \<Rightarrow>
          (case fs filename of
             None \<Rightarrow> Inl IO_error
           | Some bs \<Rightarrow> Inr \<lparr>content = bs, position = 0\<rparr>)
      | Seekable_file s \<Rightarrow> Inr s
      | Unseekable_file bs \<Rightarrow> Inr \<lparr>content = bs, position = 0\<rparr>)"

definition log_event :: "event \<Rightarrow> world \<Rightarrow> world" where
  "log_event ev w = w\<lparr>trace := trace w @ [ev]\<rparr>"

text \<open>\<^verbatim>\<open>decoder.decode(file, filename, batch)\<close> on the current stream.\<close>

definition call_decode :: "decoder \<Rightarrow> string \<Rightarrow> batch_ref option \<Rightarrow> world \<Rightarrow> decoded \<times> world" where
  "call_decode d filename batch w =
     (let s = stream_of w;
          (r, p) = decode d (content s) (position s) filename batch
      in (r, (log_event (Decode (decoder_id d) (position s)) w)\<lparr>stream_of := s\<lparr>position := p\<rparr>\<rparr>))"

text \<open>\<^verbatim>\<open>file.seek(n)\<close> and \<^verbatim>\<open>file.close()\<close>.\<close>

definition seek :: "nat \<Rightarrow> world \<Rightarrow> world" where
  "seek n w = (log_event (Seek n) w)\<lparr>stream_of := (stream_of w)\<lparr>position := n\<rparr>\<rparr>"

definition close :: "world \<Rightarrow> world" where
  "close w = log_event Close w"

text \<open>
  Lines 132 to 134: the failure \<open>e\<close> replaces the retained one when nothing is retained yet
  or when the retained one has a smaller priority.
\<close>

definition retain :: "ModelDecodeException option \<Rightarrow> ModelDecodeException \<Rightarrow> ModelDecodeException option" where
  "retain first_exception e =
     (case first_exception of
        None \<Rightarrow> Some e
      | Some f \<Rightarrow> if exception_priority f < exception_priority e then Some e else Some f)"

text \<open>
  Lines 137 to 139, after the loop: an exception object is true in a condition, so
  \<^verbatim>\<open>not first_exception\<close> holds exactly when nothing was retained.
\<close>

definition raise_after_loop :: "ModelDecodeException option \<Rightarrow> load_exception" where
  "raise_after_loop first_exception =
     (case first_exception of
        None \<Rightarrow> No_decoders_available
      | Some e \<Rightarrow> Decode_failure e)"

text \<open>
  Lines 127 to 139: the loop over the candidates with the retained failure
  \<open>first_exception\<close>, and the \<^verbatim>\<open>raise\<close> after the loop. A decoder that returns ends
  the loop; any exception other than a \<^verbatim>\<open>ModelDecodeException\<close> is not caught and
  leaves the loop at once.
\<close>

fun try_decoders ::
  "string \<Rightarrow> batch_ref option \<Rightarrow> ModelDecodeException option \<Rightarrow> decoder list \<Rightarrow> world
    \<Rightarrow> (load_exception + Model) \<times> world" where
  "try_decoders filename batch first_exception [] w = (Inl (raise_after_loop first_exception), w)"
| "try_decoders filename batch first_exception (d # ds) w =
     (case call_decode d filename batch w of
        (Returns m, w') \<Rightarrow> (Inr m, w')
      | (Raises_decode e, w') \<Rightarrow>
          try_decoders filename batch (retain first_exception e) ds (seek 0 w')
      | (Raises_other x, w') \<Rightarrow> (Inl (Other_exception x), w'))"

text \<open>
  Lines 123 to 139: the body of the \<^verbatim>\<open>try\<close> statement. A decoder object is true in
  a condition, so \<^verbatim>\<open>if decoder\<close> asks whether a decoder was given.
\<close>

definition try_body ::
  "(string \<Rightarrow> decoder list) \<Rightarrow> string \<Rightarrow> decoder option \<Rightarrow> batch_ref option \<Rightarrow> world
    \<Rightarrow> (load_exception + Model) \<times> world" where
  "try_body get_decoders filename decoder_arg batch w =
     (case decoder_arg of
        Some d \<Rightarrow>
          (case call_decode d filename batch w of
             (Returns m, w') \<Rightarrow> (Inr m, w')
           | (Raises_decode e, w') \<Rightarrow> (Inl (Decode_failure e), w')
           | (Raises_other x, w') \<Rightarrow> (Inl (Other_exception x), w'))
      | None \<Rightarrow> try_decoders filename batch None (get_decoders filename) w)"

text \<open>
  \<^verbatim>\<open>load(filename, file, decoder, batch)\<close>. The registry function \<^verbatim>\<open>get_decoders\<close> of
  \<^verbatim>\<open>pyglet.model.codecs\<close> and the file system are parameters. The result is what
  \<^verbatim>\<open>load\<close> returns or raises, with the stream and the calls made; the \<^verbatim>\<open>finally\<close>
  clause runs after the body on every path.
\<close>

definition load ::
  "(string \<Rightarrow> decoder list) \<Rightarrow> (string \<rightharpoonup> bytes) \<Rightarrow> string \<Rightarrow> file_argument \<Rightarrow> decoder option
    \<Rightarrow> batch_ref option \<Rightarrow> (load_exception + Model) \<times> world option" where
  "load get_decoders fs filename file decoder_arg batch =
     (case acquire fs filename file of
        Inl e \<Rightarrow> (Inl e, None)
      | Inr s \<Rightarrow>
          (let (r, w) = try_body get_decoders filename decoder_arg batch \<lparr>stream_of = s, trace = []\<rparr>
           in (r, Some (close w))))"

text \<open>
  Two readings of a trace. \<open>decode_calls\<close> lists the decoders whose \<^verbatim>\<open>decode\<close> was
  called, in order. \<open>fallback_shape p tr\<close> says that \<open>tr\<close> is a run of attempts of which
  the first is made at position \<open>p\<close> and every later one at position 0, directly after a
  \<^verbatim>\<open>seek(0)\<close>.
\<close>

fun decode_calls :: "event list \<Rightarrow> nat list" where
  "decode_calls [] = []"
| "decode_calls (Decode d p # tr) = d # decode_calls tr"
| "decode_calls (Seek n # tr) = decode_calls tr"
| "decode_calls (Close # tr) = decode_calls tr"

fun fallback_shape :: "nat \<Rightarrow> event list \<Rightarrow> bool" where
  "fallback_shape p [] = True"
| "fallback_shape p [Decode d q] = (q = p)"
| "fallback_shape p (Decode d q # Seek n # tr) = (q = p \<and> n = 0 \<and> fallback_shape 0 tr)"
| "fallback_shape p tr = False"

section \<open>The Model\<close>

text \<open>\<^verbatim>\<open>group.rotation = values\<close> and \<^verbatim>\<open>group.translation = values\<close>.\<close>

fun set_group_rotation :: "vec3 \<Rightarrow> group \<Rightarrow> group" where
  "set_group_rotation v (TexturedMaterialGroup b t) = TexturedMaterialGroup (b\<lparr>rotation := v\<rparr>) t"
| "set_group_rotation v (MaterialGroup b) = MaterialGroup (b\<lparr>rotation := v\<rparr>)"

fun set_group_translation :: "vec3 \<Rightarrow> group \<Rightarrow> group" where
  "set_group_translation v (TexturedMaterialGroup b t) = TexturedMaterialGroup (b\<lparr>translation := v\<rparr>) t"
| "set_group_translation v (MaterialGroup b) = MaterialGroup (b\<lparr>translation := v\<rparr>)"

text \<open>Lines 201 to 205 and 211 to 215: the setters of the two properties.\<close>

definition Model_set_rotation :: "vec3 \<Rightarrow> Model \<Rightarrow> Model" where
  "Model_set_rotation values m =
     m\<lparr>Model_rotation := values, groups := map (set_group_rotation values) (groups m)\<rparr>"

definition Model_set_translation :: "vec3 \<Rightarrow> Model \<Rightarrow> Model" where
  "Model_set_translation values m =
     m\<lparr>Model_translation := values, groups := map (set_group_translation values) (groups m)\<rparr>"

text \<open>
  The batches live outside the module. What the batch setter does to them is to build a
  new \<^verbatim>\<open>graphics.Batch()\<close> and to call \<^verbatim>\<open>migrate\<close>; the state of the graphics layer
  is the batch objects that exist, by reference, and the \<^verbatim>\<open>migrate\<close> calls made, in
  order. \<open>GL_TRIANGLES\<close> is one of the primitive modes of \<^verbatim>\<open>pyglet.gl\<close>.
\<close>

datatype gl_mode = GL_POINTS | GL_LINES | GL_TRIANGLES

record migrate_call =
  receiver :: batch_ref
  vlist :: vertex_list
  mode :: gl_mode
  migrated_group :: group
  destination :: batch_ref

record graphics =
  batches :: "batch_ref list"
  migrations :: "migrate_call list"

datatype py_error = AttributeError | TypeError

text \<open>
  \<^verbatim>\<open>graphics.Batch()\<close> builds an object that is none of the existing ones: its reference
  is the successor of the greatest reference in use.
\<close>

definition fresh_batch :: "graphics \<Rightarrow> batch_ref" where
  "fresh_batch g = Suc (fold max (batches g) 0)"

definition new_Batch :: "graphics \<Rightarrow> batch_ref \<times> graphics" where
  "new_Batch g = (fresh_batch g, g\<lparr>batches := batches g @ [fresh_batch g]\<rparr>)"

text \<open>
  Lines 192 and 193: one \<^verbatim>\<open>self._batch.migrate(vlist, GL_TRIANGLES, group, batch)\<close> per
  pair of \<^verbatim>\<open>zip(self.groups, self.vertex_lists)\<close>. When \<^verbatim>\<open>self._batch\<close> is \<open>None\<close> the
  attribute lookup \<^verbatim>\<open>migrate\<close> raises \<^verbatim>\<open>AttributeError\<close>.
\<close>

fun migrate_pairs ::
  "batch_ref option \<Rightarrow> batch_ref \<Rightarrow> (group \<times> vertex_list) list \<Rightarrow> graphics \<Rightarrow> py_error + graphics" where
  "migrate_pairs old new [] g = Inr g"
| "migrate_pairs old new ((grp, vl) # ps) g =
     (case old of
        None \<Rightarrow> Inl AttributeError
      | Some b \<Rightarrow>
          migrate_pairs old new ps
            (g\<lparr>migrations := migrations g @
                [\<lparr>receiver = b, vlist = vl, mode = GL_TRIANGLES, migrated_group = grp,
                  destination = new\<rparr>]\<rparr>))"

text \<open>
  Lines 184 to 195: the setter of \<^verbatim>\<open>Model.batch\<close>. Batches are compared by identity
  (\<^verbatim>\<open>graphics.Batch\<close> defines no \<^verbatim>\<open>__eq__\<close>).
\<close>

definition Model_set_batch ::
  "batch_ref option \<Rightarrow> Model \<Rightarrow> graphics \<Rightarrow> py_error + Model \<times> graphics" where
  "Model_set_batch batch m g =
     (if Model_batch m = batch then Inr (m, g)
      else
        (let (new, g1) = (case batch of None \<Rightarrow> new_Batch g | Some b \<Rightarrow> (b, g))
         in case migrate_pairs (Model_batch m) new (zip (groups m) (vertex_lists m)) g1 of
              Inl e \<Rightarrow> Inl e
            | Inr g2 \<Rightarrow> Inr (m\<lparr>Model_batch := Some new\<rparr>, g2)))"

text \<open>
  The \<^verbatim>\<open>migrate\<close> calls as the specification words them: one for every pair of a group
  and its vertex list, on the old batch, with triangle topology, the pair's own group and
  the new batch.
\<close>

definition migrate_calls :: "batch_ref \<Rightarrow> batch_ref \<Rightarrow> Model \<Rightarrow> migrate_call list" where
  "migrate_calls old new m =
     map (\<lambda>(grp, vl). \<lparr>receiver = old, vlist = vl, mode = GL_TRIANGLES,
            migrated_group = grp, destination = new\<rparr>)
       (zip (groups m) (vertex_lists m))"

section \<open>The rendering groups\<close>

text \<open>
  The constructors: \<^verbatim>\<open>BaseMaterialGroup.__init__\<close> (lines 246 to 251, after
  \<^verbatim>\<open>graphics.Group.__init__()\<close>, which is called without a parent) and the two concrete
  ones. \<open>i\<close> is the identity of the new object.
\<close>

definition BaseMaterialGroup_init :: "nat \<Rightarrow> Material \<Rightarrow> shader_program \<Rightarrow> base_group" where
  "BaseMaterialGroup_init i mat default_program =
     \<lparr>oid = i, parent = None, material = mat, rotation = (0, 0, 0), translation = (0, 0, 0),
      program = default_program\<rparr>"

definition TexturedMaterialGroup_init :: "nat \<Rightarrow> Material \<Rightarrow> texture \<Rightarrow> group" where
  "TexturedMaterialGroup_init i mat tex =
     TexturedMaterialGroup (BaseMaterialGroup_init i mat Textured_default_program) tex"

definition MaterialGroup_init :: "nat \<Rightarrow> Material \<Rightarrow> group" where
  "MaterialGroup_init i mat = MaterialGroup (BaseMaterialGroup_init i mat Untextured_default_program)"

subsection \<open>The model-view matrix\<close>














subsection \<open>Equality and hashing\<close>

text \<open>
  The Python values that meet a group in a comparison or that are handed to the builtin
  \<^verbatim>\<open>hash\<close>.
\<close>

datatype py_object =
    None_object
  | Int_object int
  | Tuple_object "py_object list"
  | List_object "py_object list"
  | Group_object group

text \<open>
  Lines 325, 326 and 380, 381: \<^verbatim>\<open>__eq__(self, other)\<close> of the two concrete classes.
  \<^verbatim>\<open>g == o\<close> with a group \<open>g\<close> on the left is \<^verbatim>\<open>type(g).__eq__(g, o)\<close>: the method never
  answers \<^verbatim>\<open>NotImplemented\<close>, and the module has no subclass of the two classes, whose
  reflected method would be asked first.
\<close>

fun group_eq :: "group \<Rightarrow> py_object \<Rightarrow> bool" where
  "group_eq (TexturedMaterialGroup b t) other = False"
| "group_eq (MaterialGroup b) other = False"

text \<open>\<^verbatim>\<open>a == b\<close> between two groups.\<close>

definition groups_equal :: "group \<Rightarrow> group \<Rightarrow> bool" where
  "groups_equal a b = group_eq a (Group_object b)"

text \<open>
  The builtin \<^verbatim>\<open>id\<close> on \<^verbatim>\<open>self.parent\<close>: \<open>None\<close> is an object with an identity of its
  own, here 0, and the object with reference \<open>a\<close> has identity \<open>a + 1\<close>.
\<close>

definition py_id :: "nat option \<Rightarrow> int" where
  "py_id r = (case r of None \<Rightarrow> 0 | Some a \<Rightarrow> int a + 1)"

text \<open>
  Lines 328, 329 and 383, 384: the value each \<^verbatim>\<open>__hash__\<close> hands to the builtin
  \<^verbatim>\<open>hash\<close>. In line 329 it is a tuple of three integers. In line 384 the expression
  \<^verbatim>\<open>(id(self.parent))\<close> is the integer \<^verbatim>\<open>id(self.parent)\<close> in parentheses: without a
  comma the parentheses build no tuple.
\<close>

fun hash_argument :: "group \<Rightarrow> py_object" where
  "hash_argument (TexturedMaterialGroup b t) =
     Tuple_object [Int_object (py_id (parent b)), Int_object (int (tex_id t)), Int_object (int (target t))]"
| "hash_argument (MaterialGroup b) = Int_object (py_id (parent b))"

text \<open>
  The builtin \<^verbatim>\<open>hash\<close>: it raises \<^verbatim>\<open>TypeError\<close> on an unhashable value (a list, or a
  tuple that holds one) and otherwise gives an integer, which the parameter \<open>h\<close> stands for.
  A group is hashable, as both classes define \<^verbatim>\<open>__hash__\<close>.
\<close>

fun hashable :: "py_object \<Rightarrow> bool" where
  "hashable None_object = True"
| "hashable (Int_object n) = True"
| "hashable (Tuple_object xs) = list_all hashable xs"
| "hashable (List_object xs) = False"
| "hashable (Group_object g) = True"

definition builtin_hash :: "(py_object \<Rightarrow> int) \<Rightarrow> py_object \<Rightarrow> py_error + int" where
  "builtin_hash h v = (if hashable v then Inr (h v) else Inl TypeError)"

definition group_hash :: "(py_object \<Rightarrow> int) \<Rightarrow> group \<Rightarrow> py_error + int" where
  "group_hash h g = builtin_hash h (hash_argument g)"

section \<open>Concrete inputs\<close>

text \<open>
  Inputs on which the properties below are run: three decode failures of which the last two
  tie on the priority, decoders that read four bytes and fail, that read the whole stream
  and return a Model, or that raise another exception, a file system with one file, and a
  Model of two parts.
\<close>

definition not_this_format :: ModelDecodeException where
  "not_this_format = \<lparr>message = ''not a Wavefront file'', exception_priority = 5\<rparr>"

definition malformed_first :: ModelDecodeException where
  "malformed_first = \<lparr>message = ''malformed header'', exception_priority = 10\<rparr>"

definition malformed_second :: ModelDecodeException where
  "malformed_second = \<lparr>message = ''malformed body'', exception_priority = 10\<rparr>"

definition failing_decoder :: "nat \<Rightarrow> ModelDecodeException \<Rightarrow> decoder" where
  "failing_decoder i e = \<lparr>decoder_id = i, decode = (\<lambda>bs p filename batch. (Raises_decode e, p + 4))\<rparr>"

definition returning_decoder :: "nat \<Rightarrow> Model \<Rightarrow> decoder" where
  "returning_decoder i m = \<lparr>decoder_id = i, decode = (\<lambda>bs p filename batch. (Returns m, length bs))\<rparr>"

definition crashing_decoder :: "nat \<Rightarrow> decoder" where
  "crashing_decoder i = \<lparr>decoder_id = i, decode = (\<lambda>bs p filename batch. (Raises_other ''ValueError'', p + 1))\<rparr>"

definition cube_bytes :: bytes where
  "cube_bytes = [118, 32, 48, 32, 48, 32, 48, 10]"

definition disk :: "string \<rightharpoonup> bytes" where
  "disk = [''cube.obj'' \<mapsto> cube_bytes]"

definition plastic :: Material where
  "plastic = \<lparr>name = ''plastic'', diffuse = [1, 0, 0, 1], ambient = [1, 1, 1, 1],
     specular = [0, 0, 0, 1], emission = [0, 0, 0, 1], shininess = 8, texture_name = None\<rparr>"

definition checker :: texture where
  "checker = \<lparr>tex_id = 3, target = 3553\<rparr>"

definition cube :: Model where
  "cube = Model_init [20, 21] [TexturedMaterialGroup_init 1 plastic checker, MaterialGroup_init 2 plastic] (Some 0)"

definition all_failing :: "decoder list" where
  "all_failing =
     [failing_decoder 1 not_this_format, failing_decoder 2 malformed_first,
      failing_decoder 3 malformed_second]"

definition fail_succeed_fail :: "decoder list" where
  "fail_succeed_fail =
     [failing_decoder 1 not_this_format, returning_decoder 2 cube, failing_decoder 3 malformed_second]"

definition half_read :: stream where
  "half_read = \<lparr>content = cube_bytes, position = 3\<rparr>"

definition studio :: graphics where
  "studio = \<lparr>batches = [0], migrations = []\<rparr>"



definition batchless_cube :: Model where
  "batchless_cube =
     Model_init [20, 21] [TexturedMaterialGroup_init 1 plastic checker, MaterialGroup_init 2 plastic] None"

section \<open>Properties of the loader\<close>

lemma retain_None: "retain None e = Some e"
  by (simp add: retain_def)

lemma fst_call_decode:
  "fst (call_decode d filename batch w) =
     fst (decode d (content (stream_of w)) (position (stream_of w)) filename batch)"
  by (simp add: call_decode_def Let_def split: prod.splits)

lemma content_call_decode:
  "content (stream_of (snd (call_decode d filename batch w))) = content (stream_of w)"
  by (simp add: call_decode_def Let_def log_event_def split: prod.splits)

lemma trace_call_decode:
  "trace (snd (call_decode d filename batch w)) =
     trace w @ [Decode (decoder_id d) (position (stream_of w))]"
  by (simp add: call_decode_def Let_def log_event_def split: prod.splits)

lemma stream_seek: "stream_of (seek n w) = (stream_of w)\<lparr>position := n\<rparr>"
  by (simp add: seek_def log_event_def)

lemma trace_seek: "trace (seek n w) = trace w @ [Seek n]"
  by (simp add: seek_def log_event_def)

lemma fst_load:
  "acquire fs filename file = Inr s \<Longrightarrow>
     fst (load get_decoders fs filename file decoder_arg batch)
       = fst (try_body get_decoders filename decoder_arg batch \<lparr>stream_of = s, trace = []\<rparr>)"
  by (simp add: load_def case_prod_unfold Let_def)

lemma snd_load:
  "acquire fs filename file = Inr s \<Longrightarrow>
     snd (load get_decoders fs filename file decoder_arg batch)
       = Some (close (snd (try_body get_decoders filename decoder_arg batch
                  \<lparr>stream_of = s, trace = []\<rparr>)))"
  by (simp add: load_def case_prod_unfold Let_def)

text \<open>One turn of the loop whose decoder fails with a decode failure.\<close>

lemma try_decoders_Cons_fail:
  assumes "fst (call_decode d filename batch w) = Raises_decode e"
  shows "try_decoders filename batch acc (d # ds) w =
           try_decoders filename batch (retain acc e) ds
             (seek 0 (snd (call_decode d filename batch w)))"
  using assms by (cases "call_decode d filename batch w") simp

text \<open>
  When every candidate fails, the loop folds \<open>retain\<close> over the failures in candidate
  order. The first candidate sees the stream where the loop found it, the later ones at 0.
\<close>

lemma try_decoders_all_fail:
  assumes "length es = length ds"
    and "\<forall>i<length ds. fst (decode (ds ! i) (content (stream_of w))
            (if i = 0 then position (stream_of w) else 0) filename batch) = Raises_decode (es ! i)"
  shows "fst (try_decoders filename batch acc ds w) = Inl (raise_after_loop (foldl retain acc es))"
  using assms
proof (induction ds arbitrary: es acc w)
  case Nil
  then show ?case by simp
next
  case (Cons d ds)
  then obtain e es' where es: "es = e # es'" by (cases es) auto
  from Cons.prems(2) have "fst (decode ((d # ds) ! 0) (content (stream_of w))
            (if (0::nat) = 0 then position (stream_of w) else 0) filename batch) = Raises_decode (es ! 0)"
    by blast
  then have hd: "fst (call_decode d filename batch w) = Raises_decode e"
    by (simp add: fst_call_decode es)
  let ?w = "seek 0 (snd (call_decode d filename batch w))"
  have tl: "\<forall>i<length ds. fst (decode (ds ! i) (content (stream_of ?w))
            (if i = 0 then position (stream_of ?w) else 0) filename batch) = Raises_decode (es' ! i)"
  proof (intro allI impI)
    fix i assume "i < length ds"
    then have "Suc i < length (d # ds)" by simp
    with Cons.prems(2) have "fst (decode ((d # ds) ! Suc i) (content (stream_of w))
            (if Suc i = 0 then position (stream_of w) else 0) filename batch) = Raises_decode (es ! Suc i)"
      by blast
    then show "fst (decode (ds ! i) (content (stream_of ?w))
            (if i = 0 then position (stream_of ?w) else 0) filename batch) = Raises_decode (es' ! i)"
      by (auto simp: es stream_seek content_call_decode)
  qed
  from Cons.prems(1) es have len: "length es' = length ds" by simp
  have step: "try_decoders filename batch acc (d # ds) w
      = try_decoders filename batch (retain acc e) ds ?w"
    by (rule try_decoders_Cons_fail [OF hd])
  show ?case
    unfolding step es foldl_Cons by (rule Cons.IH [OF len tl])
qed

text \<open>
  Folding \<open>retain\<close> keeps the first failure among those of the greatest priority: the
  one kept is nowhere exceeded, and every failure before it is strictly below it.
\<close>

lemma foldl_retain_first_max:
  "\<exists>i<length (a # es). foldl retain (Some a) es = Some ((a # es) ! i)
     \<and> (\<forall>j<length (a # es). exception_priority ((a # es) ! j) \<le> exception_priority ((a # es) ! i))
     \<and> (\<forall>j<i. exception_priority ((a # es) ! j) < exception_priority ((a # es) ! i))"
proof (induction es rule: rev_induct)
  case Nil
  then show ?case by simp
next
  case (snoc e es)
  then obtain i where i: "i < length (a # es)"
    and sel: "foldl retain (Some a) es = Some ((a # es) ! i)"
    and mx: "\<forall>j<length (a # es). exception_priority ((a # es) ! j) \<le> exception_priority ((a # es) ! i)"
    and before: "\<forall>j<i. exception_priority ((a # es) ! j) < exception_priority ((a # es) ! i)"
    by blast
  let ?xs = "a # es @ [e]"
  have old: "\<And>j. j < length (a # es) \<Longrightarrow> ?xs ! j = (a # es) ! j"
    by (metis append_Cons nth_append)
  have new: "?xs ! length (a # es) = e"
    by (metis append_Cons nth_append_length)
  show ?case
  proof (cases "exception_priority ((a # es) ! i) < exception_priority e")
    case True
    have "foldl retain (Some a) (es @ [e]) = Some (?xs ! length (a # es))"
      using True sel new by (simp add: retain_def)
    moreover have "\<forall>j<length ?xs. exception_priority (?xs ! j) \<le> exception_priority (?xs ! length (a # es))"
    proof (intro allI impI)
      fix j assume "j < length ?xs"
      then consider "j < length (a # es)" | "j = length (a # es)" by fastforce
      then show "exception_priority (?xs ! j) \<le> exception_priority (?xs ! length (a # es))"
      proof cases
        case 1
        then show ?thesis using mx True old [OF 1] new by fastforce
      next
        case 2
        then show ?thesis by simp
      qed
    qed
    moreover have "\<forall>j<length (a # es). exception_priority (?xs ! j) < exception_priority (?xs ! length (a # es))"
    proof (intro allI impI)
      fix j assume 1: "j < length (a # es)"
      then show "exception_priority (?xs ! j) < exception_priority (?xs ! length (a # es))"
        using mx True old [OF 1] new by fastforce
    qed
    ultimately show ?thesis
      by (intro exI [of _ "length (a # es)"]) simp
  next
    case False
    have "foldl retain (Some a) (es @ [e]) = Some (?xs ! i)"
      using False sel old [OF i] by (simp add: retain_def)
    moreover have "\<forall>j<length ?xs. exception_priority (?xs ! j) \<le> exception_priority (?xs ! i)"
    proof (intro allI impI)
      fix j assume "j < length ?xs"
      then consider "j < length (a # es)" | "j = length (a # es)" by fastforce
      then show "exception_priority (?xs ! j) \<le> exception_priority (?xs ! i)"
      proof cases
        case 1
        then show ?thesis using mx old [OF 1] old [OF i] by fastforce
      next
        case 2
        then show ?thesis using False new old [OF i] by fastforce
      qed
    qed
    moreover have "\<forall>j<i. exception_priority (?xs ! j) < exception_priority (?xs ! i)"
    proof (intro allI impI)
      fix j assume "j < i"
      with i have 1: "j < length (a # es)" by simp
      show "exception_priority (?xs ! j) < exception_priority (?xs ! i)"
        using before \<open>j < i\<close> old [OF 1] old [OF i] by fastforce
    qed
    ultimately show ?thesis using i
      by (intro exI [of _ i]) simp
  qed
qed

text \<open>
  C1. \<^verbatim>\<open>load\<close> is called without an explicit decoder on a stream \<open>s\<close>, the candidate
  list \<open>ds\<close> is not empty, and every candidate raises a decode failure, \<open>es ! i\<close> being the
  failure of the candidate \<open>ds ! i\<close> on the stream as it finds it. Then \<^verbatim>\<open>load\<close> raises
  one of these failures, \<open>es ! i\<close>; no failure has a greater priority; and every failure
  before it in candidate order has a strictly smaller priority, so that among failures of
  equal greatest priority it is the first.
\<close>

theorem load_raises_first_highest_priority:
  assumes "acquire fs filename file = Inr s"
    and "get_decoders filename = ds"
    and "ds \<noteq> []"
    and "length es = length ds"
    and "\<forall>i<length ds. fst (decode (ds ! i) (content s) (if i = 0 then position s else 0) filename batch)
           = Raises_decode (es ! i)"
  shows "\<exists>i<length es.
           fst (load get_decoders fs filename file None batch) = Inl (Decode_failure (es ! i))
         \<and> (\<forall>j<length es. exception_priority (es ! j) \<le> exception_priority (es ! i))
         \<and> (\<forall>j<i. exception_priority (es ! j) < exception_priority (es ! i))"
proof -
  from assms(3,4) obtain e es' where es: "es = e # es'" by (cases es) auto
  let ?w = "\<lparr>stream_of = s, trace = []\<rparr>"
  have "\<forall>i<length ds. fst (decode (ds ! i) (content (stream_of ?w))
          (if i = 0 then position (stream_of ?w) else 0) filename batch) = Raises_decode (es ! i)"
    unfolding world.select_convs by (rule assms(5))
  then have "fst (try_decoders filename batch None ds ?w) = Inl (raise_after_loop (foldl retain None es))"
    by (rule try_decoders_all_fail [OF assms(4)])
  then have run: "fst (load get_decoders fs filename file None batch)
      = Inl (raise_after_loop (foldl retain (Some e) es'))"
    by (simp add: fst_load [OF assms(1)] try_body_def assms(2) es retain_None)
  from foldl_retain_first_max [of e es'] obtain i where "i < length es"
    and "foldl retain (Some e) es' = Some (es ! i)"
    and "\<forall>j<length es. exception_priority (es ! j) \<le> exception_priority (es ! i)"
    and "\<forall>j<i. exception_priority (es ! j) < exception_priority (es ! i)"
    unfolding es by blast
  then show ?thesis using run by (auto simp: raise_after_loop_def)
qed

text \<open>
  The three failing decoders on the file \<^verbatim>\<open>cube.obj\<close>: the priorities are 5, 10 and 10,
  and the failure raised is the second one, the first of the two with priority 10.
\<close>

theorem load_raises_first_highest_priority_witness:
  "fst (load (\<lambda>f. all_failing) disk ''cube.obj'' No_file None None)
     = Inl (Decode_failure malformed_first)"
proof -
  let ?es = "[not_this_format, malformed_first, malformed_second]"
  have "\<exists>i<length ?es.
           fst (load (\<lambda>f. all_failing) disk ''cube.obj'' No_file None None)
             = Inl (Decode_failure (?es ! i))
         \<and> (\<forall>j<length ?es. exception_priority (?es ! j) \<le> exception_priority (?es ! i))
         \<and> (\<forall>j<i. exception_priority (?es ! j) < exception_priority (?es ! i))"
  proof (rule load_raises_first_highest_priority [where s = "\<lparr>content = cube_bytes, position = 0\<rparr>"
        and ds = all_failing])
    show "acquire disk ''cube.obj'' No_file = Inr \<lparr>content = cube_bytes, position = 0\<rparr>"
      by (simp add: acquire_def disk_def)
    show "all_failing \<noteq> []" by (simp add: all_failing_def)
    show "length ?es = length all_failing" by (simp add: all_failing_def)
    show "\<forall>i<length all_failing. fst (decode (all_failing ! i)
            (content \<lparr>content = cube_bytes, position = 0\<rparr>)
            (if i = 0 then position \<lparr>content = cube_bytes, position = 0\<rparr> else 0) ''cube.obj'' None)
           = Raises_decode (?es ! i)"
      by (simp add: all_failing_def failing_decoder_def nth_Cons split: nat.splits)
  qed simp
  then obtain i where i: "i < length ?es"
    and run: "fst (load (\<lambda>f. all_failing) disk ''cube.obj'' No_file None None)
                = Inl (Decode_failure (?es ! i))"
    and mx: "\<forall>j<length ?es. exception_priority (?es ! j) \<le> exception_priority (?es ! i)"
    and before: "\<forall>j<i. exception_priority (?es ! j) < exception_priority (?es ! i)"
    by blast
  from i have "i < 3" by simp
  then consider "i = 0" | "i = 1" | "i = 2" by linarith
  then show ?thesis
  proof cases
    case 1
    have "exception_priority (?es ! 1) \<le> exception_priority (?es ! i)"
      using mx [rule_format, of 1] by simp
    with 1 show ?thesis by (simp add: not_this_format_def malformed_first_def)
  next
    case 2
    with run show ?thesis by simp
  next
    case 3
    have "exception_priority (?es ! 1) < exception_priority (?es ! i)"
      using before [rule_format, of 1] 3 by simp
    with 3 show ?thesis by (simp add: malformed_second_def malformed_first_def)
  qed
qed
lemma decode_calls_append: "decode_calls (xs @ ys) = decode_calls xs @ decode_calls ys"
  by (induction xs rule: decode_calls.induct) simp_all

lemma try_decoders_Cons_return:
  assumes "fst (call_decode d filename batch w) = Returns m"
  shows "try_decoders filename batch acc (d # ds) w = (Inr m, snd (call_decode d filename batch w))"
  using assms by (cases "call_decode d filename batch w") simp

lemma try_decoders_Cons_other:
  assumes "fst (call_decode d filename batch w) = Raises_other x"
  shows "try_decoders filename batch acc (d # ds) w
           = (Inl (Other_exception x), snd (call_decode d filename batch w))"
  using assms by (cases "call_decode d filename batch w") simp

lemma try_decoders_first_success:
  assumes "length es = length pre"
    and "\<forall>i<length pre. fst (decode (pre ! i) (content (stream_of w))
            (if i = 0 then position (stream_of w) else 0) filename batch) = Raises_decode (es ! i)"
    and "fst (decode d (content (stream_of w))
            (if pre = [] then position (stream_of w) else 0) filename batch) = Returns m"
  shows "fst (try_decoders filename batch acc (pre @ d # post) w) = Inr m
       \<and> decode_calls (trace (snd (try_decoders filename batch acc (pre @ d # post) w)))
           = decode_calls (trace w) @ map decoder_id (pre @ [d])"
  using assms
proof (induction pre arbitrary: es acc w)
  case Nil
  then have "fst (call_decode d filename batch w) = Returns m"
    by (simp add: fst_call_decode)
  then show ?case
    by (simp add: try_decoders_Cons_return trace_call_decode decode_calls_append
        del: try_decoders.simps)
next
  case (Cons x pre)
  then obtain e es' where es: "es = e # es'" by (cases es) auto
  from Cons.prems(2) have "fst (decode ((x # pre) ! 0) (content (stream_of w))
            (if (0::nat) = 0 then position (stream_of w) else 0) filename batch) = Raises_decode (es ! 0)"
    by blast
  then have hd: "fst (call_decode x filename batch w) = Raises_decode e"
    by (simp add: fst_call_decode es)
  let ?w = "seek 0 (snd (call_decode x filename batch w))"
  have tl: "\<forall>i<length pre. fst (decode (pre ! i) (content (stream_of ?w))
            (if i = 0 then position (stream_of ?w) else 0) filename batch) = Raises_decode (es' ! i)"
  proof (intro allI impI)
    fix i assume "i < length pre"
    then have "Suc i < length (x # pre)" by simp
    with Cons.prems(2) have "fst (decode ((x # pre) ! Suc i) (content (stream_of w))
            (if Suc i = 0 then position (stream_of w) else 0) filename batch) = Raises_decode (es ! Suc i)"
      by blast
    then show "fst (decode (pre ! i) (content (stream_of ?w))
            (if i = 0 then position (stream_of ?w) else 0) filename batch) = Raises_decode (es' ! i)"
      by (auto simp: es stream_seek content_call_decode)
  qed
  have ok: "fst (decode d (content (stream_of ?w))
            (if pre = [] then position (stream_of ?w) else 0) filename batch) = Returns m"
    using Cons.prems(3) by (simp add: stream_seek content_call_decode)
  from Cons.prems(1) es have len: "length es' = length pre" by simp
  have step: "try_decoders filename batch acc ((x # pre) @ d # post) w
      = try_decoders filename batch (retain acc e) (pre @ d # post) ?w"
    using try_decoders_Cons_fail [OF hd] by simp
  have tr: "decode_calls (trace ?w) = decode_calls (trace w) @ [decoder_id x]"
    by (simp add: trace_seek trace_call_decode decode_calls_append)
  show ?case
    unfolding step using Cons.IH [OF len tl ok, of "retain acc e"] by (simp add: tr)
qed

lemma shape_try_decoders:
  "\<exists>tr. trace (snd (try_decoders filename batch acc ds w)) = trace w @ tr
        \<and> fallback_shape (position (stream_of w)) tr"
proof (induction ds arbitrary: acc w)
  case Nil
  show ?case by simp
next
  case (Cons d ds)
  let ?p = "position (stream_of w)"
  let ?w1 = "snd (call_decode d filename batch w)"
  show ?case
  proof (cases "fst (call_decode d filename batch w)")
    case (Returns m)
    have "trace (snd (try_decoders filename batch acc (d # ds) w)) = trace w @ [Decode (decoder_id d) ?p]"
      unfolding try_decoders_Cons_return [OF Returns] by (simp add: trace_call_decode)
    then show ?thesis by simp
  next
    case (Raises_other x)
    have "trace (snd (try_decoders filename batch acc (d # ds) w)) = trace w @ [Decode (decoder_id d) ?p]"
      unfolding try_decoders_Cons_other [OF Raises_other] by (simp add: trace_call_decode)
    then show ?thesis by simp
  next
    case (Raises_decode e)
    let ?w2 = "seek 0 ?w1"
    from Cons.IH [of "retain acc e" ?w2] obtain tr
      where tr: "trace (snd (try_decoders filename batch (retain acc e) ds ?w2)) = trace ?w2 @ tr"
        and sh: "fallback_shape (position (stream_of ?w2)) tr"
      by blast
    have "trace (snd (try_decoders filename batch acc (d # ds) w))
        = trace w @ (Decode (decoder_id d) ?p # Seek 0 # tr)"
      unfolding try_decoders_Cons_fail [OF Raises_decode] tr
      by (simp add: trace_seek trace_call_decode)
    moreover have "fallback_shape ?p (Decode (decoder_id d) ?p # Seek 0 # tr)"
      using sh by (simp add: stream_seek)
    ultimately show ?thesis by blast
  qed
qed

lemma shape_no_Close: "fallback_shape p tr \<Longrightarrow> Close \<notin> set tr"
  by (induction p tr rule: fallback_shape.induct) simp_all

lemma shape_nth:
  "fallback_shape p tr \<Longrightarrow> i < length tr \<Longrightarrow> tr ! i = Decode d q \<Longrightarrow>
     q = (if i = 0 then p else 0) \<and> (0 < i \<longrightarrow> tr ! (i - 1) = Seek 0)"
proof (induction p tr arbitrary: i rule: fallback_shape.induct)
  case (3 p d' q' n tr)
  show ?case
  proof (cases i)
    case 0
    with 3 show ?thesis by simp
  next
    case (Suc j)
    note i = Suc
    show ?thesis
    proof (cases j)
      case 0
      with i 3 show ?thesis by simp
    next
      case (Suc k)
      with i 3 have "fallback_shape 0 tr" "k < length tr" "tr ! k = Decode d q" by simp_all
      from "3.IH" [OF this] have q: "q = 0" and prev: "0 < k \<longrightarrow> tr ! (k - 1) = Seek 0"
        by (simp_all split: if_splits)
      show ?thesis
      proof (cases k)
        case 0
        with Suc i q 3 show ?thesis by simp
      next
        case (Suc l)
        with \<open>j = Suc k\<close> i q prev show ?thesis by simp
      qed
    qed
  qed
qed simp_all

lemma shape_try_body:
  "\<exists>tr. trace (snd (try_body get_decoders filename decoder_arg batch \<lparr>stream_of = s, trace = []\<rparr>)) = tr
        \<and> Close \<notin> set tr
        \<and> (decoder_arg = None \<longrightarrow> fallback_shape (position s) tr)"
proof (cases decoder_arg)
  case None
  from shape_try_decoders [of filename batch None "get_decoders filename" "\<lparr>stream_of = s, trace = []\<rparr>"]
  show ?thesis by (auto simp: try_body_def None dest: shape_no_Close)
next
  case (Some d)
  let ?w = "\<lparr>stream_of = s, trace = []\<rparr>"
  have "trace (snd (try_body get_decoders filename decoder_arg batch ?w))
      = [Decode (decoder_id d) (position s)]"
    using trace_call_decode [of d filename batch ?w]
    by (cases "call_decode d filename batch ?w"; cases "fst (call_decode d filename batch ?w)")
       (simp_all add: try_body_def Some)
  then show ?thesis by (simp add: Some)
qed

lemma try_decoders_No_decoders:
  "fst (try_decoders filename batch acc ds w) = Inl No_decoders_available \<Longrightarrow> acc = None \<and> ds = []"
proof (induction ds arbitrary: acc w)
  case Nil
  then show ?case by (simp add: raise_after_loop_def split: option.splits)
next
  case (Cons d ds)
  show ?case
  proof (cases "fst (call_decode d filename batch w)")
    case (Returns m)
    with Cons.prems show ?thesis by (simp add: try_decoders_Cons_return del: try_decoders.simps)
  next
    case (Raises_other x)
    with Cons.prems show ?thesis by (simp add: try_decoders_Cons_other del: try_decoders.simps)
  next
    case (Raises_decode e)
    with Cons.prems have "fst (try_decoders filename batch (retain acc e) ds
        (seek 0 (snd (call_decode d filename batch w)))) = Inl No_decoders_available"
      by (simp add: try_decoders_Cons_fail del: try_decoders.simps)
    from Cons.IH [OF this] have "retain acc e = None" by simp
    then show ?thesis by (simp add: retain_def split: option.splits if_splits)
  qed
qed

lemma distinct_later_absent:
  "distinct (map f (pre @ d # post))
      \<longrightarrow> (\<forall>x\<in>set post. f x \<notin> set (map f (pre @ [d])))"
proof (intro impI ballI)
  fix x assume d: "distinct (map f (pre @ d # post))" and x: "x \<in> set post"
  from d have 1: "f ` set pre \<inter> f ` set (d # post) = {}" and 2: "f d \<notin> f ` set post"
    by simp_all
  from x have 3: "f x \<in> f ` set post" by (rule imageI)
  show "f x \<notin> set (map f (pre @ [d]))"
  proof
    assume "f x \<in> set (map f (pre @ [d]))"
    then have "f x \<in> f ` set pre \<or> f x = f d" by auto
    then show False
    proof
      assume "f x \<in> f ` set pre"
      moreover from 3 have "f x \<in> f ` set (d # post)" by simp
      ultimately show False using 1 by blast
    next
      assume "f x = f d"
      with 2 3 show False by simp
    qed
  qed
qed

text \<open>
  C2. \<^verbatim>\<open>load\<close> is called without an explicit decoder, and the candidate list is
  \<open>pre @ d # post\<close>: every candidate of \<open>pre\<close> raises a decode failure and \<open>d\<close> returns
  the Model \<open>m\<close>, each on the stream as it finds it. Then \<^verbatim>\<open>load\<close> returns \<open>m\<close>, and the
  \<^verbatim>\<open>decode\<close> calls made are those of \<open>pre\<close> and of \<open>d\<close>, once each and in this order:
  no candidate of \<open>post\<close> is called. When the candidates are distinct objects, the identity
  of no candidate of \<open>post\<close> occurs among the calls.
\<close>

theorem load_returns_first_success:
  assumes "acquire fs filename file = Inr s"
    and "get_decoders filename = pre @ d # post"
    and "length es = length pre"
    and "\<forall>i<length pre. fst (decode (pre ! i) (content s) (if i = 0 then position s else 0) filename batch)
           = Raises_decode (es ! i)"
    and "fst (decode d (content s) (if pre = [] then position s else 0) filename batch) = Returns m"
  shows "\<exists>w. load get_decoders fs filename file None batch = (Inr m, Some w)
           \<and> decode_calls (trace w) = map decoder_id (pre @ [d])
           \<and> (distinct (map decoder_id (pre @ d # post))
                \<longrightarrow> (\<forall>x\<in>set post. decoder_id x \<notin> set (decode_calls (trace w))))"
proof -
  let ?w = "\<lparr>stream_of = s, trace = []\<rparr>"
  let ?r = "try_decoders filename batch None (pre @ d # post) ?w"
  have 1: "\<forall>i<length pre. fst (decode (pre ! i) (content (stream_of ?w))
          (if i = 0 then position (stream_of ?w) else 0) filename batch) = Raises_decode (es ! i)"
    unfolding world.select_convs by (rule assms(4))
  have 2: "fst (decode d (content (stream_of ?w))
          (if pre = [] then position (stream_of ?w) else 0) filename batch) = Returns m"
    unfolding world.select_convs by (rule assms(5))
  from try_decoders_first_success [OF assms(3) 1 2, of None post]
  have res: "fst ?r = Inr m" and calls: "decode_calls (trace (snd ?r)) = map decoder_id (pre @ [d])"
    by simp_all
  have body: "try_body get_decoders filename None batch ?w = ?r"
    by (simp add: try_body_def assms(2))
  have "load get_decoders fs filename file None batch = (Inr m, Some (close (snd ?r)))"
    using fst_load [OF assms(1), of get_decoders None batch]
      snd_load [OF assms(1), of get_decoders None batch] res
    unfolding body by (simp add: prod_eq_iff)
  moreover have "decode_calls (trace (close (snd ?r))) = map decoder_id (pre @ [d])"
    using calls by (simp add: close_def log_event_def decode_calls_append)
  moreover note distinct_later_absent [of decoder_id pre d post]
  ultimately show ?thesis by simp
qed

text \<open>
  The candidates \<^verbatim>\<open>[D_fail, D_succeed, D_fail2]\<close> with the identities 1, 2 and 3:
  \<^verbatim>\<open>load\<close> returns the Model of the second, and the third is never called.
\<close>

theorem load_returns_first_success_witness:
  "fst (load (\<lambda>f. fail_succeed_fail) disk ''cube.obj'' No_file None None) = Inr cube
   \<and> decode_calls (trace (the (snd (load (\<lambda>f. fail_succeed_fail) disk ''cube.obj'' No_file None None))))
       = [1, 2]
   \<and> 3 \<notin> set (decode_calls (trace (the (snd (load (\<lambda>f. fail_succeed_fail) disk ''cube.obj'' No_file None None)))))"
proof -
  have "\<exists>w. load (\<lambda>f. fail_succeed_fail) disk ''cube.obj'' No_file None None = (Inr cube, Some w)
           \<and> decode_calls (trace w)
               = map decoder_id ([failing_decoder 1 not_this_format] @ [returning_decoder 2 cube])
           \<and> (distinct (map decoder_id ([failing_decoder 1 not_this_format] @ returning_decoder 2 cube
                  # [failing_decoder 3 malformed_second]))
                \<longrightarrow> (\<forall>x\<in>set [failing_decoder 3 malformed_second].
                       decoder_id x \<notin> set (decode_calls (trace w))))"
  proof (rule load_returns_first_success [where s = "\<lparr>content = cube_bytes, position = 0\<rparr>"
        and es = "[not_this_format]"])
    show "acquire disk ''cube.obj'' No_file = Inr \<lparr>content = cube_bytes, position = 0\<rparr>"
      by (simp add: acquire_def disk_def)
    show "fail_succeed_fail = [failing_decoder 1 not_this_format] @ returning_decoder 2 cube
            # [failing_decoder 3 malformed_second]"
      by (simp add: fail_succeed_fail_def)
  qed (simp_all add: failing_decoder_def returning_decoder_def)
  then obtain w where "load (\<lambda>f. fail_succeed_fail) disk ''cube.obj'' No_file None None = (Inr cube, Some w)"
    and "decode_calls (trace w) = [1, 2]"
    and "3 \<notin> set (decode_calls (trace w))"
    by (auto simp: failing_decoder_def returning_decoder_def)
  then show ?thesis by simp
qed

text \<open>
  C3. Once \<^verbatim>\<open>load\<close> has a stream, whatever the explicit decoder or the candidates do
  (return, raise a decode failure, raise anything else), the calls \<^verbatim>\<open>load\<close> makes end
  with \<^verbatim>\<open>file.close()\<close> and hold no other \<^verbatim>\<open>close\<close>: the stream is closed exactly once,
  as the last thing before \<^verbatim>\<open>load\<close> returns or the exception leaves it.
\<close>

theorem load_closes_exactly_once:
  assumes "acquire fs filename file = Inr s"
  shows "\<exists>w tr. snd (load get_decoders fs filename file decoder_arg batch) = Some w
           \<and> trace w = tr @ [Close] \<and> Close \<notin> set tr
           \<and> count_list (trace w) Close = 1"
proof -
  let ?b = "try_body get_decoders filename decoder_arg batch \<lparr>stream_of = s, trace = []\<rparr>"
  from shape_try_body [of get_decoders filename decoder_arg batch s]
  have no: "Close \<notin> set (trace (snd ?b))" by simp
  have "snd (load get_decoders fs filename file decoder_arg batch) = Some (close (snd ?b))"
    by (rule snd_load [OF assms])
  moreover have "trace (close (snd ?b)) = trace (snd ?b) @ [Close]"
    by (simp add: close_def log_event_def)
  moreover have "count_list (trace (snd ?b) @ [Close]) Close = 1"
    using no by (simp add: count_list_0_iff)
  ultimately show ?thesis using no by simp
qed

text \<open>
  The three exits: a successful decode, the failure of an explicit decoder, and the
  fallback over three failing candidates.
\<close>

theorem load_closes_exactly_once_witness:
  "trace (the (snd (load (\<lambda>f. fail_succeed_fail) disk ''cube.obj'' No_file None None)))
     = [Decode 1 0, Seek 0, Decode 2 0, Close]
   \<and> trace (the (snd (load (\<lambda>f. all_failing) disk ''cube.obj'' No_file
        (Some (failing_decoder 1 not_this_format)) None)))
     = [Decode 1 0, Close]
   \<and> trace (the (snd (load (\<lambda>f. all_failing) disk ''cube.obj'' No_file None None)))
     = [Decode 1 0, Seek 0, Decode 2 0, Seek 0, Decode 3 0, Seek 0, Close]
   \<and> count_list (trace (the (snd (load (\<lambda>f. all_failing) disk ''cube.obj'' No_file None None)))) Close = 1"
proof -
  have a: "acquire disk ''cube.obj'' No_file = Inr \<lparr>content = cube_bytes, position = 0\<rparr>"
    by (simp add: acquire_def disk_def)
  from load_closes_exactly_once [OF a, of "\<lambda>f. all_failing" None None]
  have "count_list (trace (the (snd (load (\<lambda>f. all_failing) disk ''cube.obj'' No_file None None)))) Close = 1"
    by auto
  then show ?thesis
    by (simp add: load_def a try_body_def all_failing_def fail_succeed_fail_def failing_decoder_def
        returning_decoder_def call_decode_def seek_def close_def log_event_def)
qed

text \<open>
  C4 (amended). In a run of \<^verbatim>\<open>load\<close> without an explicit decoder, after every decode
  attempt that fails with a decode failure the stream is reset to offset 0 before the next
  candidate's attempt runs: every \<^verbatim>\<open>decode\<close> call but the first comes directly after
  \<^verbatim>\<open>file.seek(0)\<close> and finds the stream at position 0, wherever the failed decoder left
  it. The first call finds the stream at the position it has when \<^verbatim>\<open>load\<close> takes it,
  which is 0 whenever \<^verbatim>\<open>load\<close> opened the file itself or buffered a file object
  without \<^verbatim>\<open>seek\<close>.
\<close>

theorem load_rewinds_after_failure:
  assumes "acquire fs filename file = Inr s"
    and "snd (load get_decoders fs filename file None batch) = Some w"
    and "i < length (trace w)"
    and "trace w ! i = Decode d p"
  shows "p = (if i = 0 then position s else 0)
       \<and> (0 < i \<longrightarrow> trace w ! (i - 1) = Seek 0)
       \<and> ((\<forall>s'. file \<noteq> Seekable_file s') \<longrightarrow> p = 0)"
proof -
  let ?b = "try_body get_decoders filename None batch \<lparr>stream_of = s, trace = []\<rparr>"
  from shape_try_body [of get_decoders filename None batch s]
  have sh: "fallback_shape (position s) (trace (snd ?b))" by simp
  from snd_load [OF assms(1), of get_decoders None batch] assms(2)
  have w: "trace w = trace (snd ?b) @ [Close]"
    by (auto simp: close_def log_event_def)
  from assms(3,4) w have i: "i < length (trace (snd ?b))"
    by (cases "i < length (trace (snd ?b))") (auto simp: nth_append)
  with assms(4) w have at: "trace (snd ?b) ! i = Decode d p"
    by (simp add: nth_append)
  from shape_nth [OF sh i at]
  have p: "p = (if i = 0 then position s else 0)" and prev: "0 < i \<longrightarrow> trace (snd ?b) ! (i - 1) = Seek 0"
    by simp_all
  from prev i w have "0 < i \<longrightarrow> trace w ! (i - 1) = Seek 0"
    by (auto simp: nth_append)
  moreover have "(\<forall>s'. file \<noteq> Seekable_file s') \<longrightarrow> position s = 0"
    using assms(1) by (cases "file") (auto simp: acquire_def split: option.splits)
  ultimately show ?thesis using p by simp
qed

text \<open>
  Three failing decoders on a stream handed over at position 3, each reading four bytes:
  the second \<^verbatim>\<open>decode\<close> call, at index 2 of the trace, finds position 0 after the
  \<^verbatim>\<open>seek(0)\<close> at index 1.
\<close>

theorem load_rewinds_after_failure_witness:
  "snd (load (\<lambda>f. all_failing) disk ''cube.obj'' (Seekable_file half_read) None None)
     = Some \<lparr>stream_of = \<lparr>content = cube_bytes, position = 0\<rparr>,
         trace = [Decode 1 3, Seek 0, Decode 2 0, Seek 0, Decode 3 0, Seek 0, Close]\<rparr>
   \<and> [Decode 1 3, Seek 0, Decode 2 0, Seek 0, Decode 3 0, Seek 0, Close] ! 2 = Decode 2 0
   \<and> [Decode 1 3, Seek 0, Decode 2 0, Seek 0, Decode 3 0, Seek 0, Close] ! (2 - 1) = Seek 0"
proof -
  let ?w = "\<lparr>stream_of = \<lparr>content = cube_bytes, position = 0\<rparr>,
         trace = [Decode 1 3, Seek 0, Decode 2 0, Seek 0, Decode 3 0, Seek 0, Close]\<rparr>"
  have a: "acquire disk ''cube.obj'' (Seekable_file half_read) = Inr half_read"
    by (simp add: acquire_def)
  have run: "snd (load (\<lambda>f. all_failing) disk ''cube.obj'' (Seekable_file half_read) None None) = Some ?w"
    by (simp add: load_def acquire_def try_body_def all_failing_def failing_decoder_def half_read_def
        call_decode_def seek_def close_def log_event_def)
  from load_rewinds_after_failure [OF a run, of 2 2 0]
  show ?thesis using run by simp
qed

text \<open>
  C4 as it was stated has every attempt observe the stream from its original start. On a
  seekable stream handed over at offset 3 the first attempt is made at offset 3 and the
  second at offset 0: the attempts do not all start at offset 0, nor all at the offset the
  stream had at first.
\<close>

theorem load_attempts_differ_counterexample:
  "trace (the (snd (load (\<lambda>f. all_failing) disk ''cube.obj'' (Seekable_file half_read) None None)))
     = [Decode 1 3, Seek 0, Decode 2 0, Seek 0, Decode 3 0, Seek 0, Close]
   \<and> \<not> (\<forall>i d p. i < length (trace (the (snd (load (\<lambda>f. all_failing) disk ''cube.obj''
                (Seekable_file half_read) None None))))
            \<and> trace (the (snd (load (\<lambda>f. all_failing) disk ''cube.obj''
                (Seekable_file half_read) None None))) ! i = Decode d p
          \<longrightarrow> p = 0)
   \<and> \<not> (\<forall>i d p. i < length (trace (the (snd (load (\<lambda>f. all_failing) disk ''cube.obj''
                (Seekable_file half_read) None None))))
            \<and> trace (the (snd (load (\<lambda>f. all_failing) disk ''cube.obj''
                (Seekable_file half_read) None None))) ! i = Decode d p
          \<longrightarrow> p = position half_read)"
proof -
  let ?tr = "trace (the (snd (load (\<lambda>f. all_failing) disk ''cube.obj'' (Seekable_file half_read) None None)))"
  have run: "?tr = [Decode 1 3, Seek 0, Decode 2 0, Seek 0, Decode 3 0, Seek 0, Close]"
    by (simp add: load_def acquire_def try_body_def all_failing_def failing_decoder_def half_read_def
        call_decode_def seek_def close_def log_event_def)
  have "\<not> (\<forall>i d p. i < length ?tr \<and> ?tr ! i = Decode d p \<longrightarrow> p = 0)"
  proof
    assume "\<forall>i d p. i < length ?tr \<and> ?tr ! i = Decode d p \<longrightarrow> p = 0"
    then have "0 < length ?tr \<and> ?tr ! 0 = Decode 1 3 \<longrightarrow> (3::nat) = 0" by blast
    then show False unfolding run by simp
  qed
  moreover have "\<not> (\<forall>i d p. i < length ?tr \<and> ?tr ! i = Decode d p \<longrightarrow> p = position half_read)"
  proof
    assume "\<forall>i d p. i < length ?tr \<and> ?tr ! i = Decode d p \<longrightarrow> p = position half_read"
    then have "2 < length ?tr \<and> ?tr ! 2 = Decode 2 0 \<longrightarrow> (0::nat) = position half_read" by blast
    then show False unfolding run by (simp add: half_read_def)
  qed
  ultimately show ?thesis using run by simp
qed

lemma acquire_Inl: "acquire fs filename file = Inl e \<Longrightarrow> e = IO_error"
  by (cases "file") (auto simp: acquire_def split: option.splits)

text \<open>
  C5. With a stream, no explicit decoder and an empty candidate list, \<^verbatim>\<open>load\<close> raises the
  error of line 138 after no \<^verbatim>\<open>decode\<close> call at all: the only call made is the closing
  of the stream. Conversely, whenever \<^verbatim>\<open>load\<close> raises this error, no explicit decoder
  was given and the candidate list was empty.
\<close>

theorem load_no_decoders_available:
  "(acquire fs filename file = Inr s \<and> get_decoders filename = []
      \<longrightarrow> load get_decoders fs filename file None batch
            = (Inl No_decoders_available, Some \<lparr>stream_of = s, trace = [Close]\<rparr>))
   \<and> (fst (load get_decoders fs filename file decoder_arg batch) = Inl No_decoders_available
      \<longrightarrow> decoder_arg = None \<and> get_decoders filename = [])"
proof (rule conjI)
  show "acquire fs filename file = Inr s \<and> get_decoders filename = []
      \<longrightarrow> load get_decoders fs filename file None batch
            = (Inl No_decoders_available, Some \<lparr>stream_of = s, trace = [Close]\<rparr>)"
    by (simp add: load_def try_body_def raise_after_loop_def close_def log_event_def)
next
  show "fst (load get_decoders fs filename file decoder_arg batch) = Inl No_decoders_available
      \<longrightarrow> decoder_arg = None \<and> get_decoders filename = []"
  proof (rule impI)
    assume r: "fst (load get_decoders fs filename file decoder_arg batch) = Inl No_decoders_available"
    then obtain s where a: "acquire fs filename file = Inr s"
      by (cases "acquire fs filename file") (auto simp: load_def dest: acquire_Inl)
    let ?w = "\<lparr>stream_of = s, trace = []\<rparr>"
    from r have b: "fst (try_body get_decoders filename decoder_arg batch ?w) = Inl No_decoders_available"
      by (simp add: fst_load [OF a])
    show "decoder_arg = None \<and> get_decoders filename = []"
    proof (cases decoder_arg)
      case None
      with b have "fst (try_decoders filename batch None (get_decoders filename) ?w)
          = Inl No_decoders_available"
        by (simp add: try_body_def)
      from try_decoders_No_decoders [OF this] None show ?thesis by simp
    next
      case (Some d)
      with b have False
        by (cases "call_decode d filename batch ?w"; cases "fst (call_decode d filename batch ?w)")
           (simp_all add: try_body_def)
      then show ?thesis ..
    qed
  qed
qed

text \<open>The file \<^verbatim>\<open>cube.obj\<close> with an empty registry.\<close>

theorem load_no_decoders_available_witness:
  "load (\<lambda>f. []) disk ''cube.obj'' No_file None None
     = (Inl No_decoders_available, Some \<lparr>stream_of = \<lparr>content = cube_bytes, position = 0\<rparr>, trace = [Close]\<rparr>)
   \<and> decode_calls [Close] = []"
proof -
  have a: "acquire disk ''cube.obj'' No_file = Inr \<lparr>content = cube_bytes, position = 0\<rparr>"
    by (simp add: acquire_def disk_def)
  from load_no_decoders_available [of disk "''cube.obj''" No_file
      "\<lparr>content = cube_bytes, position = 0\<rparr>" "\<lambda>f. []" None None]
  show ?thesis using a by simp
qed

section \<open>Properties of the Model\<close>

lemma base_set_group_rotation:
  "base (set_group_rotation v g) = (base g)\<lparr>rotation := v\<rparr>"
  by (cases g) simp_all

lemma base_set_group_translation:
  "base (set_group_translation v g) = (base g)\<lparr>translation := v\<rparr>"
  by (cases g) simp_all

text \<open>
  C6. After the rotation setter has run with the value \<open>v\<close>, the rotation stored in the
  Model is \<open>v\<close> and the rotation of every group of \<^verbatim>\<open>model.groups\<close> is \<open>v\<close>; the same
  holds of the translation setter and the translations. The setters keep the groups in
  number.
\<close>

theorem Model_setters_fan_out:
  "Model_rotation (Model_set_rotation v m) = v
   \<and> (\<forall>g\<in>set (groups (Model_set_rotation v m)). rotation (base g) = v)
   \<and> length (groups (Model_set_rotation v m)) = length (groups m)
   \<and> Model_translation (Model_set_translation v m) = v
   \<and> (\<forall>g\<in>set (groups (Model_set_translation v m)). translation (base g) = v)
   \<and> length (groups (Model_set_translation v m)) = length (groups m)"
  by (simp add: Model_set_rotation_def Model_set_translation_def base_set_group_rotation
      base_set_group_translation)

text \<open>
  \<^verbatim>\<open>model.rotation = (90, 0, 0)\<close> on the Model of two parts, read back from the Model
  and from each of its groups.
\<close>

theorem Model_setters_fan_out_witness:
  "Model_rotation (Model_set_rotation (90, 0, 0) cube) = (90, 0, 0)
   \<and> rotation (base (groups (Model_set_rotation (90, 0, 0) cube) ! 0)) = (90, 0, 0)
   \<and> rotation (base (groups (Model_set_rotation (90, 0, 0) cube) ! 1)) = (90, 0, 0)
   \<and> translation (base (groups (Model_set_translation (1, 2, 3) cube) ! 1)) = (1, 2, 3)"
proof -
  have g: "length (groups cube) = 2"
    by (simp add: cube_def Model_init_def)
  from Model_setters_fan_out [of "(90, 0, 0)" cube]
  have r: "Model_rotation (Model_set_rotation (90, 0, 0) cube) = (90, 0, 0)"
    and rs: "\<forall>g\<in>set (groups (Model_set_rotation (90, 0, 0) cube)). rotation (base g) = (90, 0, 0)"
    and rl: "length (groups (Model_set_rotation (90, 0, 0) cube)) = 2"
    using g by simp_all
  from Model_setters_fan_out [of "(1, 2, 3)" cube]
  have ts: "\<forall>g\<in>set (groups (Model_set_translation (1, 2, 3) cube)). translation (base g) = (1, 2, 3)"
    and tl: "length (groups (Model_set_translation (1, 2, 3) cube)) = 2"
    using g by simp_all
  from rs rl have "rotation (base (groups (Model_set_rotation (90, 0, 0) cube) ! 0)) = (90, 0, 0)"
    and "rotation (base (groups (Model_set_rotation (90, 0, 0) cube) ! 1)) = (90, 0, 0)"
    by (simp_all add: all_set_conv_all_nth)
  moreover from ts tl have "translation (base (groups (Model_set_translation (1, 2, 3) cube) ! 1)) = (1, 2, 3)"
    by (simp add: all_set_conv_all_nth)
  ultimately show ?thesis using r by simp
qed

lemma migrate_pairs_Some:
  "migrate_pairs (Some old) new ps g
     = Inr (g\<lparr>migrations := migrations g @
          map (\<lambda>(grp, vl). \<lparr>receiver = old, vlist = vl, mode = GL_TRIANGLES,
                 migrated_group = grp, destination = new\<rparr>) ps\<rparr>)"
proof (induction ps arbitrary: g)
  case Nil
  show ?case by simp
next
  case (Cons p ps)
  obtain grp vl where p: "p = (grp, vl)" by (cases p)
  show ?case unfolding p by (simp add: Cons.IH)
qed

lemma migrate_pairs_None:
  "migrate_pairs None new (p # ps) g = Inl AttributeError"
  by (cases p) simp

lemma fold_max_ge: "a \<le> fold max xs (a::nat)"
  by (induction xs arbitrary: a) (auto intro: order_trans [OF max.cobounded2])

lemma fold_max_mem: "x \<in> set xs \<Longrightarrow> x \<le> fold max xs (a::nat)"
proof (induction xs arbitrary: a)
  case Nil
  then show ?case by simp
next
  case (Cons y ys)
  show ?case
  proof (cases "x = y")
    case True
    have "y \<le> max y a" by simp
    also have "\<dots> \<le> fold max ys (max y a)" by (rule fold_max_ge)
    finally show ?thesis using True by simp
  next
    case False
    with Cons.prems have "x \<in> set ys" by simp
    from Cons.IH [OF this] show ?thesis by simp
  qed
qed

text \<open>The batch that \<^verbatim>\<open>graphics.Batch()\<close> builds is none of the existing ones.\<close>

lemma fresh_batch_new: "fresh_batch g \<notin> set (batches g)"
proof
  assume "fresh_batch g \<in> set (batches g)"
  from fold_max_mem [OF this, of 0] show False by (simp add: fresh_batch_def)
qed

text \<open>
  C7. A Model built with \<open>None\<close> as its batch, which the constructor stores as it is
  although its documentation promises a batch of the Model's own: assigning batch 5 compares
  unequal in line 186, skips line 189 and raises \<^verbatim>\<open>AttributeError\<close> at the first
  \<^verbatim>\<open>migrate\<close> of line 193, with no \<^verbatim>\<open>migrate\<close> call made and no batch installed.
  Assigning \<open>None\<close> is taken for the assignment of the current batch and builds no batch.
\<close>

theorem Model_set_batch_without_batch_raises:
  "Model_batch batchless_cube = None
   \<and> zip (groups batchless_cube) (vertex_lists batchless_cube)
       = [(TexturedMaterialGroup_init 1 plastic checker, 20), (MaterialGroup_init 2 plastic, 21)]
   \<and> Model_set_batch (Some 5) batchless_cube studio = Inl AttributeError
   \<and> Model_set_batch None batchless_cube studio = Inr (batchless_cube, studio)"
  by (simp add: batchless_cube_def Model_init_def Model_set_batch_def)

text \<open>
  The same for every Model without a batch: assigning \<open>None\<close> is the no-op case, and
  assigning a batch raises \<^verbatim>\<open>AttributeError\<close> at the first pair.
\<close>

lemma Model_set_batch_without_batch:
  assumes "Model_batch m = None"
  shows "Model_set_batch None m g = Inr (m, g)"
    and "zip (groups m) (vertex_lists m) \<noteq> [] \<Longrightarrow> Model_set_batch (Some b) m g = Inl AttributeError"
proof -
  show "Model_set_batch None m g = Inr (m, g)"
    by (simp add: Model_set_batch_def assms)
  assume "zip (groups m) (vertex_lists m) \<noteq> []"
  then obtain p ps where "zip (groups m) (vertex_lists m) = p # ps"
    by (cases "zip (groups m) (vertex_lists m)") auto
  then show "Model_set_batch (Some b) m g = Inl AttributeError"
    by (simp add: Model_set_batch_def assms migrate_pairs_None)
qed

section \<open>Properties of the rendering groups\<close>






text \<open>Both \<^verbatim>\<open>__eq__\<close> methods answer \<open>False\<close> to every operand.\<close>

lemma group_eq_False: "group_eq g other = False"
  by (cases g) simp_all

text \<open>
  C10. For a group \<open>g\<close> of either class and every operand, \<^verbatim>\<open>g == other\<close> is \<open>False\<close>;
  in particular \<^verbatim>\<open>g == g\<close> is \<open>False\<close>, so equality of groups is not reflexive and is
  no equivalence relation.
\<close>

theorem group_equality_irreflexive:
  "\<not> group_eq g other \<and> \<not> groups_equal g g \<and> \<not> reflp groups_equal \<and> \<not> equivp groups_equal"
proof -
  have 1: "\<not> groups_equal a b" for a b
    by (simp add: groups_equal_def group_eq_False)
  then have "\<not> reflp groups_equal"
    by (auto simp: reflp_def)
  moreover then have "\<not> equivp groups_equal"
    using equivp_reflp [of groups_equal] by (auto simp: reflp_def)
  ultimately show ?thesis using 1 by (simp add: group_eq_False)
qed

text \<open>
  Distinct group objects are unequal in both directions, and so are two textured groups
  built from the same Material and texture.
\<close>

lemma distinct_groups_unequal:
  "oid (base a) \<noteq> oid (base b) \<Longrightarrow> \<not> groups_equal a b \<and> \<not> groups_equal b a"
  by (simp add: groups_equal_def group_eq_False)

lemma fresh_textured_groups_unequal:
  "i \<noteq> j \<Longrightarrow> \<not> groups_equal (TexturedMaterialGroup_init i mat tex) (TexturedMaterialGroup_init j mat tex)"
  by (simp add: groups_equal_def group_eq_False)

text \<open>
  Hashing a group never raises: what \<^verbatim>\<open>__hash__\<close> hands to \<^verbatim>\<open>hash\<close> is an integer or
  a tuple of integers.
\<close>

lemma hashable_hash_argument: "hashable (hash_argument g)"
  by (cases g) simp_all

lemma group_hash_never_raises: "group_hash h g = Inr (h (hash_argument g))"
  by (simp add: group_hash_def builtin_hash_def hashable_hash_argument)

text \<open>
  C9. A new \<^verbatim>\<open>MaterialGroup\<close> (its parent is \<open>None\<close>, of identity 0) hands the integer 0
  to \<^verbatim>\<open>hash\<close>, and not the tuple \<^verbatim>\<open>(0,)\<close>: line 384 lacks the comma that line 329, in
  the textured class, has. A new \<^verbatim>\<open>TexturedMaterialGroup\<close> hands over the tuple of the
  parent's identity, the texture's id and the texture's target.
\<close>

theorem MaterialGroup_hashes_bare_id:
  "hash_argument (MaterialGroup_init 2 plastic) = Int_object 0
   \<and> hash_argument (MaterialGroup_init 2 plastic) \<noteq> Tuple_object [Int_object 0]
   \<and> hash_argument (TexturedMaterialGroup_init 1 plastic checker)
       = Tuple_object [Int_object 0, Int_object 3, Int_object 3553]"
  by (simp add: MaterialGroup_init_def TexturedMaterialGroup_init_def BaseMaterialGroup_init_def
      py_id_def checker_def)

section \<open>Further properties\<close>

text \<open>
  X1. With an explicit decoder, \<^verbatim>\<open>load\<close> calls that decoder once and nothing else but
  the closing of the stream: what the decoder returns is returned, and what it raises leaves
  \<^verbatim>\<open>load\<close> as it is, a decode failure included. The registry is not asked.
\<close>

theorem load_explicit_decoder_alone:
  assumes "acquire fs filename file = Inr s"
  shows "load get_decoders fs filename file (Some d) batch =
     (case fst (decode d (content s) (position s) filename batch) of
        Returns m \<Rightarrow> Inr m
      | Raises_decode e \<Rightarrow> Inl (Decode_failure e)
      | Raises_other x \<Rightarrow> Inl (Other_exception x),
      Some \<lparr>stream_of = s\<lparr>position := snd (decode d (content s) (position s) filename batch)\<rparr>,
            trace = [Decode (decoder_id d) (position s), Close]\<rparr>)"
  by (cases "decode d (content s) (position s) filename batch";
      cases "fst (decode d (content s) (position s) filename batch)")
     (simp_all add: load_def assms try_body_def call_decode_def close_def log_event_def)

text \<open>An explicit decoder that fails, beside a registry whose second candidate would succeed.\<close>

theorem load_explicit_decoder_alone_witness:
  "load (\<lambda>f. fail_succeed_fail) disk ''cube.obj'' No_file (Some (failing_decoder 7 not_this_format)) None
     = (Inl (Decode_failure not_this_format),
        Some \<lparr>stream_of = \<lparr>content = cube_bytes, position = 4\<rparr>, trace = [Decode 7 0, Close]\<rparr>)"
proof -
  have a: "acquire disk ''cube.obj'' No_file = Inr \<lparr>content = cube_bytes, position = 0\<rparr>"
    by (simp add: acquire_def disk_def)
  from load_explicit_decoder_alone [OF a, of "\<lambda>f. fail_succeed_fail" "failing_decoder 7 not_this_format" None]
  show ?thesis by (simp add: failing_decoder_def)
qed

text \<open>
  X2. Two textured groups built from the same Material and texture are unequal, as are any
  two groups; hashing a group never raises; and a textured group hashes the tuple of its
  parent's identity, its texture's id and its texture's target.
\<close>

theorem groups_unequal_and_hashable:
  "\<not> groups_equal (TexturedMaterialGroup_init i mat tex) (TexturedMaterialGroup_init j mat tex)
   \<and> \<not> groups_equal a b
   \<and> group_hash h g = Inr (h (hash_argument g))
   \<and> hash_argument (TexturedMaterialGroup bg t)
       = Tuple_object [Int_object (py_id (parent bg)), Int_object (int (tex_id t)),
           Int_object (int (target t))]"
  by (simp add: groups_equal_def group_eq_False group_hash_never_raises)


text \<open>
  X3. For a Model whose batch is \<open>old\<close>, an existing batch, the batch setter does one of
  three things. Assigned \<open>old\<close> itself, it changes nothing: no \<^verbatim>\<open>migrate\<close> call, and the
  Model keeps its batch. Assigned \<open>None\<close>, it builds a new batch, different from \<open>old\<close> and
  from every other existing batch, which becomes the Model's batch. Assigned another batch
  \<open>new\<close>, it makes \<open>new\<close> the Model's batch. In the last two cases it first calls
  \<^verbatim>\<open>migrate\<close> on \<open>old\<close> once for every pair of a group and its vertex list, in order,
  with \<open>GL_TRIANGLES\<close>, the group of the pair and the batch being installed.
\<close>

theorem Model_set_batch_migrates:
  assumes "Model_batch m = Some old"
    and "old \<in> set (batches g)"
  shows "(batch = Some old \<longrightarrow> Model_set_batch batch m g = Inr (m, g))
       \<and> (batch = None \<longrightarrow>
            fresh_batch g \<notin> set (batches g) \<and> fresh_batch g \<noteq> old
            \<and> Model_set_batch batch m g =
                Inr (m\<lparr>Model_batch := Some (fresh_batch g)\<rparr>,
                     g\<lparr>batches := batches g @ [fresh_batch g],
                       migrations := migrations g @ migrate_calls old (fresh_batch g) m\<rparr>))
       \<and> (\<forall>new. batch = Some new \<and> new \<noteq> old \<longrightarrow>
            Model_set_batch batch m g =
              Inr (m\<lparr>Model_batch := Some new\<rparr>,
                   g\<lparr>migrations := migrations g @ migrate_calls old new m\<rparr>))"
proof (intro conjI impI allI)
  assume "batch = Some old"
  then show "Model_set_batch batch m g = Inr (m, g)"
    by (simp add: Model_set_batch_def assms)
next
  show "fresh_batch g \<notin> set (batches g)"
    by (rule fresh_batch_new)
next
  from fresh_batch_new [of g] assms(2) show "fresh_batch g \<noteq> old"
    by auto
next
  assume none: "batch = None"
  have "migrate_pairs (Some old) (fresh_batch g) (zip (groups m) (vertex_lists m))
          (g\<lparr>batches := batches g @ [fresh_batch g]\<rparr>)
      = Inr (g\<lparr>batches := batches g @ [fresh_batch g],
               migrations := migrations g @ migrate_calls old (fresh_batch g) m\<rparr>)"
    by (simp add: migrate_pairs_Some migrate_calls_def)
  then show "Model_set_batch batch m g =
      Inr (m\<lparr>Model_batch := Some (fresh_batch g)\<rparr>,
           g\<lparr>batches := batches g @ [fresh_batch g],
             migrations := migrations g @ migrate_calls old (fresh_batch g) m\<rparr>)"
    by (simp add: Model_set_batch_def assms none new_Batch_def)
next
  fix new
  assume other: "batch = Some new \<and> new \<noteq> old"
  have "migrate_pairs (Some old) new (zip (groups m) (vertex_lists m)) g
      = Inr (g\<lparr>migrations := migrations g @ migrate_calls old new m\<rparr>)"
    by (simp add: migrate_pairs_Some migrate_calls_def)
  with other show "Model_set_batch batch m g =
      Inr (m\<lparr>Model_batch := Some new\<rparr>,
           g\<lparr>migrations := migrations g @ migrate_calls old new m\<rparr>)"
    by (auto simp: Model_set_batch_def assms)
qed

text \<open>
  The Model of two parts in batch 0, the only batch there is: assigning batch 0, assigning
  batch 5, and assigning \<open>None\<close>, which builds batch 1.
\<close>

theorem Model_set_batch_migrates_witness:
  "Model_set_batch (Some 0) cube studio = Inr (cube, studio)
   \<and> Model_set_batch (Some 5) cube studio =
       Inr (cube\<lparr>Model_batch := Some 5\<rparr>,
            studio\<lparr>migrations :=
              [\<lparr>receiver = 0, vlist = 20, mode = GL_TRIANGLES,
                 migrated_group = TexturedMaterialGroup_init 1 plastic checker, destination = 5\<rparr>,
               \<lparr>receiver = 0, vlist = 21, mode = GL_TRIANGLES,
                 migrated_group = MaterialGroup_init 2 plastic, destination = 5\<rparr>]\<rparr>)
   \<and> Model_set_batch None cube studio =
       Inr (cube\<lparr>Model_batch := Some 1\<rparr>,
            studio\<lparr>batches := [0, 1], migrations :=
              [\<lparr>receiver = 0, vlist = 20, mode = GL_TRIANGLES,
                 migrated_group = TexturedMaterialGroup_init 1 plastic checker, destination = 1\<rparr>,
               \<lparr>receiver = 0, vlist = 21, mode = GL_TRIANGLES,
                 migrated_group = MaterialGroup_init 2 plastic, destination = 1\<rparr>]\<rparr>)"
proof -
  have b: "Model_batch cube = Some 0"
    by (simp add: cube_def Model_init_def)
  have i: "0 \<in> set (batches studio)"
    by (simp add: studio_def)
  have f: "fresh_batch studio = 1"
    by (simp add: fresh_batch_def studio_def)
  have c: "migrate_calls 0 n cube =
      [\<lparr>receiver = 0, vlist = 20, mode = GL_TRIANGLES,
         migrated_group = TexturedMaterialGroup_init 1 plastic checker, destination = n\<rparr>,
       \<lparr>receiver = 0, vlist = 21, mode = GL_TRIANGLES,
         migrated_group = MaterialGroup_init 2 plastic, destination = n\<rparr>]" for n
    by (simp add: migrate_calls_def cube_def Model_init_def)
  from Model_set_batch_migrates [OF b i, of "Some 0"]
    Model_set_batch_migrates [OF b i, of "Some 5"]
    Model_set_batch_migrates [OF b i, of None]
  show ?thesis by (simp add: c f) (simp add: studio_def)
qed

end
